theory Spec2Isabelle
  imports Main
begin

section \<open>Python values, exceptions and the log\<close>

text \<open>
  The module \<open>pyyoutube/utils/params_checker.py\<close> dispatches on the run-time type of its
  arguments. A value is \<open>None\<close>, a \<open>str\<close>, a \<open>list\<close>, a \<open>tuple\<close>, a \<open>set\<close>, an
  \<open>int\<close> or a \<open>bytes\<close>. The \<open>int\<close> stands for a value of a type the module does not
  accept and that has no \<open>split\<close> attribute (it is hashable and is no instance of
  \<open>str\<close>, \<open>list\<close>, \<open>tuple\<close> or \<open>set\<close>); the \<open>bytes\<close> for one that has a
  \<open>split\<close> method, which rejects the separator \<open>","\<close>, a \<open>str\<close>, with
  \<open>TypeError\<close>. A \<open>set\<close> carries its elements in the order in which iterating it
  yields them.
\<close>

datatype pyval =
    VNone
  | VStr string
  | VInt int
  | VBytes string
  | VList "pyval list"
  | VTuple "pyval list"
  | VSet "pyval list"

text \<open>
  Modelled from the spec: the enumeration \<open>ErrorCode\<close> and the dataclass
  \<open>ErrorMessage\<close> of \<open>pyyoutube.error\<close>, which is not among the sources. The spec names
  the two kinds \<open>INVALID_PARAMS\<close> and \<open>MISSING_PARAMS\<close> and an error that carries a kind
  and a message.
\<close>

datatype ErrorCode = INVALID_PARAMS | MISSING_PARAMS

record ErrorMessage =
  status_code :: ErrorCode
  message :: string

text \<open>
  What a call can raise: the module's own \<open>PyYouTubeException\<close>, and the built-in
  exceptions of the operations it applies to a value.
\<close>

datatype error =
    PyYouTubeException ErrorMessage
  | TypeError
  | ValueError
  | AttributeError
  | KeyError

datatype log_level = WARNING

type_synonym log = "(log_level \<times> string) list"

section \<open>The built-in operations the module calls\<close>

text \<open>\<open>s.split(",")\<close> on a \<open>str\<close>: one more piece than there are commas.\<close>

fun split_comma :: "string \<Rightarrow> string list" where
  "split_comma [] = [[]]"
| "split_comma (c # cs) =
     (if c = CHR '','' then [] # split_comma cs
      else (case split_comma cs of
              [] \<Rightarrow> [[c]]
            | w # ws \<Rightarrow> (c # w) # ws))"

text \<open>\<open>",".join(xs)\<close> on strings.\<close>

fun join_comma :: "string list \<Rightarrow> string" where
  "join_comma [] = []"
| "join_comma [x] = x"
| "join_comma (x # y # ys) = x @ '','' @ join_comma (y # ys)"

fun is_str :: "pyval \<Rightarrow> bool" where
  "is_str (VStr s) = True"
| "is_str v = False"

fun the_str :: "pyval \<Rightarrow> string" where
  "the_str (VStr s) = s"
| "the_str v = []"

text \<open>
  \<open>param.split(",")\<close>: a \<open>str\<close> is split; \<open>bytes.split\<close> takes no \<open>str\<close>
  separator and raises \<open>TypeError\<close>; the other values have no such attribute.
\<close>

fun py_split :: "pyval \<Rightarrow> error + string list" where
  "py_split (VStr s) = Inr (split_comma s)"
| "py_split (VBytes b) = Inl TypeError"
| "py_split v = Inl AttributeError"

text \<open>\<open>",".join(xs)\<close> raises \<open>TypeError\<close> at an item that is no \<open>str\<close>.\<close>

definition py_join :: "pyval list \<Rightarrow> error + string" where
  "py_join xs =
     (if list_all is_str xs then Inr (join_comma (map the_str xs)) else Inl TypeError)"

fun hashable :: "pyval \<Rightarrow> bool" where
  "hashable VNone = True"
| "hashable (VStr s) = True"
| "hashable (VInt i) = True"
| "hashable (VBytes b) = True"
| "hashable (VList xs) = False"
| "hashable (VTuple xs) = list_all hashable xs"
| "hashable (VSet xs) = False"

text \<open>
  The order in which a \<open>set\<close> built from a sequence of insertions is iterated depends on
  the hashes of the interpreter, so it is a parameter \<open>so\<close>: from the elements in the
  order of insertion to the elements in the order of iteration. Every such order lists
  each element once.
\<close>

definition set_order :: "(pyval list \<Rightarrow> pyval list) \<Rightarrow> bool" where
  "set_order so \<longleftrightarrow> (\<forall>xs. distinct (so xs) \<and> set (so xs) = set xs)"

text \<open>\<open>set(xs)\<close> raises \<open>TypeError\<close> at an unhashable element.\<close>

definition py_set :: "(pyval list \<Rightarrow> pyval list) \<Rightarrow> pyval list \<Rightarrow> error + pyval list" where
  "py_set so xs = (if list_all hashable xs then Inr (so xs) else Inl TypeError)"

definition issuperset :: "pyval list \<Rightarrow> pyval list \<Rightarrow> bool" where
  "issuperset s t \<longleftrightarrow> set t \<subseteq> set s"

definition difference :: "(pyval list \<Rightarrow> pyval list) \<Rightarrow> pyval list \<Rightarrow> pyval list \<Rightarrow> pyval list" where
  "difference so s t = so (filter (\<lambda>x. x \<notin> set t) s)"

text \<open>
  \<open>RESOURCE_PARTS_MAPPING\<close> of \<open>pyyoutube.utils.constants\<close> is not among the sources:
  it is a parameter \<open>rpm\<close>, a dictionary from a resource name to a set of strings (in
  its order of iteration). A key that is absent raises \<open>KeyError\<close>.
\<close>

type_synonym parts_mapping = "string \<rightharpoonup> string list"

definition lookup_parts :: "parts_mapping \<Rightarrow> string \<Rightarrow> error + pyval list" where
  "lookup_parts rpm resource =
     (case rpm resource of None \<Rightarrow> Inl KeyError | Some ps \<Rightarrow> Inr (map VStr ps))"

section \<open>The validators\<close>

definition invalid_params :: "string \<Rightarrow> error" where
  "invalid_params msg = PyYouTubeException \<lparr>status_code = INVALID_PARAMS, message = msg\<rparr>"

definition missing_params :: "string \<Rightarrow> error" where
  "missing_params msg = PyYouTubeException \<lparr>status_code = MISSING_PARAMS, message = msg\<rparr>"

text \<open>
  \<open>comma_separated_validator(**kwargs)\<close>: the keyword arguments in the order given. The
  loop raises at the first value whose \<open>split\<close> fails; only \<open>AttributeError\<close> is caught.
\<close>

fun comma_separated_validator :: "(string \<times> pyval) list \<Rightarrow> error + unit" where
  "comma_separated_validator [] = Inr ()"
| "comma_separated_validator ((name, param) # kwargs) =
     (if param \<noteq> VNone then
        (case py_split param of
           Inl AttributeError \<Rightarrow>
             Inl (invalid_params
                    (''Parameter '' @ name @ '' must be str or comma-separated list str''))
         | Inl e \<Rightarrow> Inl e
         | Inr ws \<Rightarrow> comma_separated_validator kwargs)
      else comma_separated_validator kwargs)"

definition parts_validator ::
  "(pyval list \<Rightarrow> pyval list) \<Rightarrow> parts_mapping \<Rightarrow> string \<Rightarrow> pyval \<Rightarrow> error + unit" where
  "parts_validator so rpm resource parts =
     (if parts \<noteq> VNone then
        (case lookup_parts rpm resource of
           Inl e \<Rightarrow> Inl e
         | Inr support_parts \<Rightarrow>
            (case py_split parts of
               Inl e \<Rightarrow> Inl e
             | Inr ws \<Rightarrow>
                (case py_set so (map VStr ws) of
                   Inl e \<Rightarrow> Inl e
                 | Inr parts' \<Rightarrow>
                    (if \<not> issuperset support_parts parts' then
                       (case py_join (difference so parts' support_parts) of
                          Inl e \<Rightarrow> Inl e
                        | Inr not_support_parts \<Rightarrow>
                            Inl (invalid_params
                                   (''Part '' @ not_support_parts @ '' for resource '' @
                                    resource @ '' not support'')))
                     else Inr ()))))
      else Inr ())"

text \<open>The counting loop of \<open>incompatible_validator\<close>, with its counter \<open>given\<close>.\<close>

fun count_given :: "(string \<times> pyval) list \<Rightarrow> nat \<Rightarrow> nat" where
  "count_given [] given = given"
| "count_given ((name, param) # kwargs) given =
     (if param \<noteq> VNone then count_given kwargs (given + 1) else count_given kwargs given)"

definition incompatible_validator :: "(string \<times> pyval) list \<Rightarrow> error + unit" where
  "incompatible_validator kwargs =
     (let given = count_given kwargs 0;
          params = join_comma (map fst kwargs)
      in if given = 0 then Inl (missing_params (''Specify at least one of '' @ params))
         else if given > 1 then
           Inl (invalid_params (''Incompatible parameters specified for '' @ params))
         else Inr ())"

definition enf_msg :: "string \<Rightarrow> string" where
  "enf_msg field =
     ''Parameter ('' @ field @ '') must be single str,comma-separated str,list,tuple or set''"

text \<open>
  The \<open>try\<close> block of \<open>enf_comma_separated\<close> around the join: \<open>TypeError\<close> and
  \<open>ValueError\<close> become the module's exception, anything else passes through.
\<close>

definition join_or_invalid :: "string \<Rightarrow> pyval list \<Rightarrow> error + string option" where
  "join_or_invalid field xs =
     (case py_join xs of
        Inl TypeError \<Rightarrow> Inl (invalid_params (enf_msg field))
      | Inl ValueError \<Rightarrow> Inl (invalid_params (enf_msg field))
      | Inl e \<Rightarrow> Inl e
      | Inr s \<Rightarrow> Inr (Some s))"

text \<open>
  \<open>enf_comma_separated(field, value)\<close> takes the log and returns it with the result: a
  \<open>set\<close> appends a warning before the join.
\<close>

fun enf_comma_separated :: "string \<Rightarrow> pyval \<Rightarrow> log \<Rightarrow> (error + string option) \<times> log" where
  "enf_comma_separated field VNone lg = (Inr None, lg)"
| "enf_comma_separated field (VStr s) lg = (Inr (Some s), lg)"
| "enf_comma_separated field (VList xs) lg = (join_or_invalid field xs, lg)"
| "enf_comma_separated field (VTuple xs) lg = (join_or_invalid field xs, lg)"
| "enf_comma_separated field (VSet xs) lg =
     (join_or_invalid field xs,
      lg @ [(WARNING, ''Note: The order of the set is unreliable.'')])"
| "enf_comma_separated field (VInt i) lg = (Inl (invalid_params (enf_msg field)), lg)"
| "enf_comma_separated field (VBytes b) lg = (Inl (invalid_params (enf_msg field)), lg)"

text \<open>Lines 150 to 162 of \<open>enf_parts\<close>: the requested set, by the type of the value.\<close>

fun requested_parts ::
  "(pyval list \<Rightarrow> pyval list) \<Rightarrow> parts_mapping \<Rightarrow> string \<Rightarrow> pyval \<Rightarrow> error + pyval list" where
  "requested_parts so rpm resource VNone = lookup_parts rpm resource"
| "requested_parts so rpm resource (VStr s) = py_set so (map VStr (split_comma s))"
| "requested_parts so rpm resource (VList xs) = py_set so xs"
| "requested_parts so rpm resource (VTuple xs) = py_set so xs"
| "requested_parts so rpm resource (VSet xs) = py_set so xs"
| "requested_parts so rpm resource (VInt i) =
     Inl (invalid_params
            ''Parameter (parts) must be single str,comma-separated str,list,tuple or set'')"
| "requested_parts so rpm resource (VBytes b) =
     Inl (invalid_params
            ''Parameter (parts) must be single str,comma-separated str,list,tuple or set'')"

definition enf_parts ::
  "(pyval list \<Rightarrow> pyval list) \<Rightarrow> parts_mapping \<Rightarrow> string \<Rightarrow> pyval \<Rightarrow> error + string" where
  "enf_parts so rpm resource v =
     (case requested_parts so rpm resource v of
        Inl e \<Rightarrow> Inl e
      | Inr parts \<Rightarrow>
         (case lookup_parts rpm resource of
            Inl e \<Rightarrow> Inl e
          | Inr support_parts \<Rightarrow>
             (if \<not> issuperset support_parts parts then
                (case py_join (difference so parts support_parts) of
                   Inl e \<Rightarrow> Inl e
                 | Inr not_support_parts \<Rightarrow>
                     Inl (invalid_params
                            (''Parts '' @ not_support_parts @ '' for resource '' @
                             resource @ '' not support'')))
              else
                (case py_join parts of
                   Inl e \<Rightarrow> Inl e
                 | Inr s \<Rightarrow> Inr s))))"

text \<open>Whether a message contains a name: \<open>needle in hay\<close>.\<close>

fun contains :: "string \<Rightarrow> string \<Rightarrow> bool" where
  "contains needle [] = (needle = [])"
| "contains needle (c # cs) =
     (take (length needle) (c # cs) = needle \<or> contains needle cs)"

section \<open>Facts about the built-in operations\<close>

lemma split_comma_not_Nil: "split_comma s \<noteq> []"
  by (induction s) (auto split: list.splits)

lemma join_split_comma: "join_comma (split_comma s) = s"
proof (induction s)
  case Nil
  show ?case by simp
next
  case (Cons c cs)
  obtain w ws where sp: "split_comma cs = w # ws"
    using split_comma_not_Nil [of cs] by (cases "split_comma cs") auto
  show ?case
  proof (cases "c = CHR '',''")
    case True
    with Cons sp show ?thesis by simp
  next
    case False
    with Cons sp show ?thesis by (cases ws) auto
  qed
qed

lemma split_comma_no_comma: "CHR '','' \<notin> set w \<Longrightarrow> split_comma w = [w]"
  by (induction w) auto

lemma split_comma_append:
  "CHR '','' \<notin> set w \<Longrightarrow> split_comma (w @ CHR '','' # r) = w # split_comma r"
  by (induction w) auto

lemma split_join_comma:
  "ss \<noteq> [] \<Longrightarrow> \<forall>w \<in> set ss. CHR '','' \<notin> set w \<Longrightarrow> split_comma (join_comma ss) = ss"
proof (induction ss rule: join_comma.induct)
  case 1
  then show ?case by simp
next
  case (2 x)
  then show ?case by (simp add: split_comma_no_comma)
next
  case (3 x y ys)
  then show ?case by (simp add: split_comma_append)
qed

lemma count_given_filter:
  "count_given kwargs given = given + length (filter (\<lambda>p. snd p \<noteq> VNone) kwargs)"
  by (induction kwargs given rule: count_given.induct) auto

lemma contains_prefix: "contains needle (needle @ post)"
proof (cases "needle @ post")
  case Nil
  then show ?thesis by simp
next
  case (Cons a list)
  have "take (length needle) (needle @ post) = needle" by simp
  then have "take (length needle) (a # list) = needle" by (simp only: Cons)
  then show ?thesis by (simp only: Cons contains.simps simp_thms)
qed

lemma contains_append: "contains needle (pre @ needle @ post)"
  by (induction pre) (auto simp: contains_prefix)

lemma py_join_strs: "py_join (map VStr ss) = Inr (join_comma ss)"
  by (simp add: py_join_def list_all_iff comp_def)

lemma py_join_not_strs: "\<not> list_all is_str xs \<Longrightarrow> py_join xs = Inl TypeError"
  by (simp add: py_join_def)

lemma set_order_Nil: "set_order so \<Longrightarrow> so [] = []"
proof -
  assume "set_order so"
  then have "set (so []) = set []" unfolding set_order_def by blast
  then show ?thesis by simp
qed

lemma set_order_image:
  assumes "set_order so" "set ys = VStr ` S"
  shows "\<exists>ds. so ys = map VStr ds \<and> distinct ds \<and> set ds = S"
proof -
  from assms have d: "distinct (so ys)" and s: "set (so ys) = VStr ` S"
    by (auto simp: set_order_def)
  define ds where "ds = map the_str (so ys)"
  have "\<forall>v \<in> set (so ys). VStr (the_str v) = v" using s by auto
  then have m: "map VStr ds = so ys" unfolding ds_def by (simp add: map_idI)
  have "distinct (map VStr ds)" using d m by simp
  then have "distinct ds" by (simp add: distinct_map)
  moreover have "VStr ` set ds = VStr ` S" using s m by (metis set_map)
  then have "set ds = S" by (simp add: inj_image_eq_iff inj_on_def)
  ultimately have "so ys = map VStr ds \<and> distinct ds \<and> set ds = S"
    using m by simp
  then show ?thesis by blast
qed

lemma hashable_strs: "list_all hashable (map VStr ws)"
  by (simp add: list_all_iff)

lemma py_set_strs: "py_set so (map VStr ws) = Inr (so (map VStr ws))"
  by (simp add: py_set_def hashable_strs)

lemma issuperset_strs:
  "set parts = VStr ` W \<Longrightarrow> issuperset (map VStr sp) parts \<longleftrightarrow> W \<subseteq> set sp"
  by (auto simp: issuperset_def)

lemma join_difference:
  assumes "set_order so" "set parts = VStr ` W"
  shows "\<exists>ds. distinct ds \<and> set ds = W - set sp \<and>
           py_join (difference so parts (map VStr sp)) = Inr (join_comma ds)"
proof -
  have "set (filter (\<lambda>x. x \<notin> set (map VStr sp)) parts) = VStr ` (W - set sp)"
    using assms(2) by auto
  from set_order_image [OF assms(1) this]
  obtain ds where "so (filter (\<lambda>x. x \<notin> set (map VStr sp)) parts) = map VStr ds"
    "distinct ds" "set ds = W - set sp" by blast
  then have "distinct ds \<and> set ds = W - set sp \<and>
           py_join (difference so parts (map VStr sp)) = Inr (join_comma ds)"
    by (simp add: difference_def py_join_strs)
  then show ?thesis by blast
qed

lemma comma_separated_validator_skip:
  "\<forall>p \<in> set pre. snd p = VNone \<or> (\<exists>ws. py_split (snd p) = Inr ws) \<Longrightarrow>
   comma_separated_validator (pre @ rest) = comma_separated_validator rest"
proof (induction pre)
  case Nil
  show ?case by simp
next
  case (Cons p pre)
  obtain name param where p: "p = (name, param)" by (cases p)
  from Cons.prems have "param = VNone \<or> (\<exists>ws. py_split param = Inr ws)"
    by (simp add: p)
  moreover have "comma_separated_validator (pre @ rest) = comma_separated_validator rest"
    using Cons by simp
  ultimately show ?case by (cases param) (simp_all add: p)
qed

lemma enf_parts_unfold:
  "rpm resource = Some sp \<Longrightarrow> requested_parts so rpm resource v = Inr parts \<Longrightarrow>
   enf_parts so rpm resource v =
     (if \<not> issuperset (map VStr sp) parts then
        (case py_join (difference so parts (map VStr sp)) of
           Inl e \<Rightarrow> Inl e
         | Inr n \<Rightarrow> Inl (invalid_params
              (''Parts '' @ n @ '' for resource '' @ resource @ '' not support'')))
      else py_join parts)"
  by (simp add: enf_parts_def lookup_parts_def split: sum.splits)

text \<open>
  \<open>enf_parts\<close> on values whose elements are strings: for \<open>None\<close> the permitted
  parts joined in their own order; for a value of another type \<open>INVALID_PARAMS\<close>; for a
  \<open>str\<close> (split on commas) and for a \<open>list\<close>, \<open>tuple\<close> or \<open>set\<close> of
  strings, the requested parts joined, each once, when all are permitted, and otherwise
  \<open>INVALID_PARAMS\<close> with the parts that are not permitted and the resource.
\<close>

lemma enf_parts_requested:
  assumes so: "set_order so" and rpm: "rpm resource = Some sp"
    and rq: "requested_parts so rpm resource v = Inr (so (map VStr ws))"
  shows "(set ws \<subseteq> set sp \<longrightarrow>
           (\<exists>ds. distinct ds \<and> set ds = set ws \<and>
              enf_parts so rpm resource v = Inr (join_comma ds)))
         \<and> (\<not> set ws \<subseteq> set sp \<longrightarrow>
           (\<exists>ds. distinct ds \<and> set ds = set ws - set sp \<and>
              enf_parts so rpm resource v
                = Inl (PyYouTubeException \<lparr>status_code = INVALID_PARAMS, message =
                    ''Parts '' @ join_comma ds @ '' for resource '' @ resource @
                    '' not support''\<rparr>)))"
proof -
  define parts where "parts = so (map VStr ws)"
  have sp: "set parts = VStr ` set ws"
    using so by (simp add: parts_def set_order_def)
  have "set (map VStr ws) = VStr ` set ws" by simp
  from set_order_image [OF so this]
  obtain ps where ps: "parts = map VStr ps" "distinct ps" "set ps = set ws"
    unfolding parts_def by blast
  note u = enf_parts_unfold [OF rpm rq [folded parts_def]]
  have a: "set ws \<subseteq> set sp \<longrightarrow>
           (\<exists>ds. distinct ds \<and> set ds = set ws \<and>
              enf_parts so rpm resource v = Inr (join_comma ds))"
  proof
    assume "set ws \<subseteq> set sp"
    then have "enf_parts so rpm resource v = Inr (join_comma ps)"
      by (simp add: u issuperset_strs [OF sp]) (simp add: ps(1) py_join_strs)
    with ps(2,3) show "\<exists>ds. distinct ds \<and> set ds = set ws \<and>
              enf_parts so rpm resource v = Inr (join_comma ds)" by blast
  qed
  have b: "\<not> set ws \<subseteq> set sp \<longrightarrow>
           (\<exists>ds. distinct ds \<and> set ds = set ws - set sp \<and>
              enf_parts so rpm resource v
                = Inl (PyYouTubeException \<lparr>status_code = INVALID_PARAMS, message =
                    ''Parts '' @ join_comma ds @ '' for resource '' @ resource @
                    '' not support''\<rparr>))"
  proof
    assume ns: "\<not> set ws \<subseteq> set sp"
    from join_difference [OF so sp, of sp]
    obtain ds where ds: "distinct ds" "set ds = set ws - set sp"
      "py_join (difference so parts (map VStr sp)) = Inr (join_comma ds)" by blast
    have "enf_parts so rpm resource v
                = Inl (PyYouTubeException \<lparr>status_code = INVALID_PARAMS, message =
                    ''Parts '' @ join_comma ds @ '' for resource '' @ resource @
                    '' not support''\<rparr>)"
      using ns by (simp add: u issuperset_strs [OF sp] ds(3) invalid_params_def)
    with ds(1,2) show "\<exists>ds. distinct ds \<and> set ds = set ws - set sp \<and>
              enf_parts so rpm resource v
                = Inl (PyYouTubeException \<lparr>status_code = INVALID_PARAMS, message =
                    ''Parts '' @ join_comma ds @ '' for resource '' @ resource @
                    '' not support''\<rparr>)" by blast
  qed
  from a b show ?thesis by blast
qed

lemma enf_parts_None:
  "rpm resource = Some sp \<Longrightarrow> enf_parts so rpm resource VNone = Inr (join_comma sp)"
  by (simp add: enf_parts_def lookup_parts_def issuperset_def py_join_strs)

lemma enf_parts_other_type:
  "v \<in> {VInt i, VBytes b} \<Longrightarrow>
   enf_parts so rpm resource v
     = Inl (PyYouTubeException \<lparr>status_code = INVALID_PARAMS, message =
         ''Parameter (parts) must be single str,comma-separated str,list,tuple or set''\<rparr>)"
  by (auto simp: enf_parts_def invalid_params_def)

lemma comma_separated_validator_bytes:
  "comma_separated_validator ((name, VBytes b) # kwargs) = Inl TypeError"
  by simp

lemma enf_parts_on_strings:
  assumes "set_order so" "rpm resource = Some sp"
    and "(v, ws) \<in> {(VStr s, split_comma s), (VList (map VStr ts), ts),
                     (VTuple (map VStr ts), ts), (VSet (map VStr ts), ts)}"
  shows "(set ws \<subseteq> set sp \<longrightarrow>
           (\<exists>ds. distinct ds \<and> set ds = set ws \<and>
              enf_parts so rpm resource v = Inr (join_comma ds)))
         \<and> (\<not> set ws \<subseteq> set sp \<longrightarrow>
           (\<exists>ds. distinct ds \<and> set ds = set ws - set sp \<and>
              enf_parts so rpm resource v
                = Inl (PyYouTubeException \<lparr>status_code = INVALID_PARAMS, message =
                    ''Parts '' @ join_comma ds @ '' for resource '' @ resource @
                    '' not support''\<rparr>)))"
proof -
  have "requested_parts so rpm resource v = Inr (so (map VStr ws))"
    using assms(3) by (auto simp: py_set_strs)
  from enf_parts_requested [OF assms(1,2) this] show ?thesis .
qed

section \<open>The claims\<close>

text \<open>
  C1. \<open>enf_comma_separated\<close> returns \<open>None\<close> for \<open>None\<close>, returns a \<open>str\<close>
  unchanged, joins a \<open>list\<close> or a \<open>tuple\<close> of strings with commas in the order of its
  elements, and raises \<open>INVALID_PARAMS\<close>, with a message that names the field and the
  accepted types, for a value of any other type and for a \<open>list\<close>, \<open>tuple\<close> or \<open>set\<close>
  with an element that is no \<open>str\<close> (the join fails there).
\<close>

theorem enf_comma_separated_cases:
  "fst (enf_comma_separated field VNone lg) = Inr None
   \<and> fst (enf_comma_separated field (VStr s) lg) = Inr (Some s)
   \<and> fst (enf_comma_separated field (VList (map VStr ss)) lg) = Inr (Some (join_comma ss))
   \<and> fst (enf_comma_separated field (VTuple (map VStr ss)) lg) = Inr (Some (join_comma ss))
   \<and> fst (enf_comma_separated field (VInt i) lg)
       = Inl (PyYouTubeException \<lparr>status_code = INVALID_PARAMS, message =
           ''Parameter ('' @ field @
           '') must be single str,comma-separated str,list,tuple or set''\<rparr>)
   \<and> fst (enf_comma_separated field (VBytes b) lg)
       = Inl (PyYouTubeException \<lparr>status_code = INVALID_PARAMS, message =
           ''Parameter ('' @ field @
           '') must be single str,comma-separated str,list,tuple or set''\<rparr>)
   \<and> (\<not> list_all is_str xs \<longrightarrow>
        (\<forall>v \<in> {VList xs, VTuple xs, VSet xs}.
           fst (enf_comma_separated field v lg)
             = Inl (PyYouTubeException \<lparr>status_code = INVALID_PARAMS, message =
                 ''Parameter ('' @ field @
                 '') must be single str,comma-separated str,list,tuple or set''\<rparr>)))"
  by (simp add: join_or_invalid_def py_join_strs py_join_not_strs invalid_params_def enf_msg_def)

theorem enf_comma_separated_cases_witness:
  "\<not> list_all is_str [VStr ''a'', VInt 1]
   \<and> fst (enf_comma_separated ''ids'' (VList [VStr ''a'', VInt 1]) [])
       = Inl (PyYouTubeException \<lparr>status_code = INVALID_PARAMS, message =
           ''Parameter (ids) must be single str,comma-separated str,list,tuple or set''\<rparr>)
   \<and> fst (enf_comma_separated ''ids'' (VList [VStr ''a'', VStr ''b'', VStr ''c'']) [])
       = Inr (Some ''a,b,c'')
   \<and> fst (enf_comma_separated ''ids'' (VInt 123) [])
       = Inl (PyYouTubeException \<lparr>status_code = INVALID_PARAMS, message =
           ''Parameter (ids) must be single str,comma-separated str,list,tuple or set''\<rparr>)"
  using enf_comma_separated_cases [of "''ids''" "[]" "''a,b,c''" "[''a'', ''b'', ''c'']" 123
      "''a''"
      "[VStr ''a'', VInt 1]"]
  by simp

text \<open>
  C2. After resolving the requested set, \<open>enf_parts\<close> is to raise \<open>INVALID_PARAMS\<close>
  whenever that set is not a subset of the permitted parts. The code builds the message
  with \<open>",".join\<close> outside any \<open>try\<close>: for a list whose element is no \<open>str\<close>
  (here an \<open>int\<close>), the element is not a permitted part, the join of the unsupported
  parts raises \<open>TypeError\<close>, and that is what the call raises, for every resource of the
  mapping and every order of iteration.
\<close>

theorem enf_parts_int_element:
  "set_order so \<Longrightarrow> rpm resource = Some sp \<Longrightarrow>
   enf_parts so rpm resource (VList [VInt i]) = Inl TypeError"
proof -
  assume so: "set_order so" and rpm: "rpm resource = Some sp"
  have s: "set (so [VInt i]) = {VInt i}" using so by (simp add: set_order_def)
  have rq: "requested_parts so rpm resource (VList [VInt i]) = Inr (so [VInt i])"
    by (simp add: py_set_def)
  have ns: "\<not> issuperset (map VStr sp) (so [VInt i])"
    using s by (auto simp: issuperset_def)
  have "set (difference so (so [VInt i]) (map VStr sp)) = {VInt i}"
    using so s by (auto simp: difference_def set_order_def)
  then have "\<not> list_all is_str (difference so (so [VInt i]) (map VStr sp))"
    by (simp add: list_all_iff)
  then have "py_join (difference so (so [VInt i]) (map VStr sp)) = Inl TypeError"
    by (rule py_join_not_strs)
  then show ?thesis by (simp add: enf_parts_unfold [OF rpm rq] ns)
qed

theorem enf_parts_int_element_witness:
  "set_order remdups
   \<and> map_of [(''video'', [''id'', ''snippet''])] ''video'' = Some [''id'', ''snippet'']
   \<and> enf_parts remdups (map_of [(''video'', [''id'', ''snippet''])]) ''video''
        (VList [VInt 1]) = Inl TypeError"
  using enf_parts_int_element [of remdups "map_of [(''video'', [''id'', ''snippet''])]"
      "''video''" "[''id'', ''snippet'']" 1]
  by (simp add: set_order_def)

text \<open>
  C3. \<open>incompatible_validator\<close> counts the values that are not \<open>None\<close>: with none it
  raises \<open>MISSING_PARAMS\<close>, with more than one \<open>INVALID_PARAMS\<close>, both with a message
  that lists all the parameter names joined by commas in the order given; with exactly one
  it returns (\<open>None\<close>, the unit value here).
\<close>

theorem incompatible_validator_cardinality:
  "(length (filter (\<lambda>p. snd p \<noteq> VNone) kwargs) = 0 \<longrightarrow>
      incompatible_validator kwargs
        = Inl (PyYouTubeException \<lparr>status_code = MISSING_PARAMS, message =
            ''Specify at least one of '' @ join_comma (map fst kwargs)\<rparr>))
   \<and> (length (filter (\<lambda>p. snd p \<noteq> VNone) kwargs) > 1 \<longrightarrow>
      incompatible_validator kwargs
        = Inl (PyYouTubeException \<lparr>status_code = INVALID_PARAMS, message =
            ''Incompatible parameters specified for '' @ join_comma (map fst kwargs)\<rparr>))
   \<and> (length (filter (\<lambda>p. snd p \<noteq> VNone) kwargs) = 1 \<longrightarrow>
      incompatible_validator kwargs = Inr ())"
  by (simp add: incompatible_validator_def count_given_filter Let_def
      missing_params_def invalid_params_def)

theorem incompatible_validator_cardinality_witness:
  "length (filter (\<lambda>p. snd p \<noteq> VNone) [(''a'', VNone), (''b'', VNone)]) = 0
   \<and> incompatible_validator [(''a'', VNone), (''b'', VNone)]
       = Inl (PyYouTubeException \<lparr>status_code = MISSING_PARAMS, message =
           ''Specify at least one of a,b''\<rparr>)
   \<and> length (filter (\<lambda>p. snd p \<noteq> VNone) [(''a'', VStr ''x''), (''b'', VStr ''y'')]) > 1
   \<and> incompatible_validator [(''a'', VStr ''x''), (''b'', VStr ''y'')]
       = Inl (PyYouTubeException \<lparr>status_code = INVALID_PARAMS, message =
           ''Incompatible parameters specified for a,b''\<rparr>)
   \<and> length (filter (\<lambda>p. snd p \<noteq> VNone) [(''a'', VStr ''x''), (''b'', VNone)]) = 1
   \<and> incompatible_validator [(''a'', VStr ''x''), (''b'', VNone)] = Inr ()"
  using incompatible_validator_cardinality [of "[(''a'', VNone), (''b'', VNone)]"]
    incompatible_validator_cardinality [of "[(''a'', VStr ''x''), (''b'', VStr ''y'')]"]
    incompatible_validator_cardinality [of "[(''a'', VStr ''x''), (''b'', VNone)]"]
  by simp

text \<open>
  C4. For a resource that is a key of the mapping, \<open>parts_validator\<close> returns for
  \<open>None\<close>; for a \<open>str\<close> it returns when every piece between commas is a permitted
  part, and otherwise raises \<open>INVALID_PARAMS\<close> with a message that lists, joined by
  commas and each once, exactly the requested pieces that are not permitted, and names the
  resource.
\<close>

theorem parts_validator_spec:
  "set_order so \<Longrightarrow> rpm resource = Some sp \<Longrightarrow>
   parts_validator so rpm resource VNone = Inr ()
   \<and> (set (split_comma s) \<subseteq> set sp \<longrightarrow> parts_validator so rpm resource (VStr s) = Inr ())
   \<and> (\<not> set (split_comma s) \<subseteq> set sp \<longrightarrow>
        (\<exists>ds. distinct ds \<and> set ds = set (split_comma s) - set sp \<and>
           parts_validator so rpm resource (VStr s)
             = Inl (PyYouTubeException \<lparr>status_code = INVALID_PARAMS, message =
                 ''Part '' @ join_comma ds @ '' for resource '' @ resource @
                 '' not support''\<rparr>)))"
proof -
  assume so: "set_order so" and rpm: "rpm resource = Some sp"
  define parts where "parts = so (map VStr (split_comma s))"
  have sp: "set parts = VStr ` set (split_comma s)"
    using so by (simp add: parts_def set_order_def)
  have pv: "parts_validator so rpm resource (VStr s) =
      (if \<not> issuperset (map VStr sp) parts then
         (case py_join (difference so parts (map VStr sp)) of
            Inl e \<Rightarrow> Inl e
          | Inr n \<Rightarrow> Inl (invalid_params
               (''Part '' @ n @ '' for resource '' @ resource @ '' not support'')))
       else Inr ())"
    by (simp add: parts_validator_def lookup_parts_def rpm py_set_strs parts_def)
  have a: "parts_validator so rpm resource VNone = Inr ()"
    by (simp add: parts_validator_def)
  have b: "set (split_comma s) \<subseteq> set sp \<longrightarrow> parts_validator so rpm resource (VStr s) = Inr ()"
    by (simp add: pv issuperset_strs [OF sp])
  have c: "\<not> set (split_comma s) \<subseteq> set sp \<longrightarrow>
        (\<exists>ds. distinct ds \<and> set ds = set (split_comma s) - set sp \<and>
           parts_validator so rpm resource (VStr s)
             = Inl (PyYouTubeException \<lparr>status_code = INVALID_PARAMS, message =
                 ''Part '' @ join_comma ds @ '' for resource '' @ resource @
                 '' not support''\<rparr>))"
  proof
    assume ns: "\<not> set (split_comma s) \<subseteq> set sp"
    from join_difference [OF so sp, of sp]
    obtain ds where ds: "distinct ds" "set ds = set (split_comma s) - set sp"
      "py_join (difference so parts (map VStr sp)) = Inr (join_comma ds)" by blast
    have "parts_validator so rpm resource (VStr s)
             = Inl (PyYouTubeException \<lparr>status_code = INVALID_PARAMS, message =
                 ''Part '' @ join_comma ds @ '' for resource '' @ resource @
                 '' not support''\<rparr>)"
      using ns by (simp add: pv issuperset_strs [OF sp] ds(3) invalid_params_def)
    with ds(1,2) show "\<exists>ds. distinct ds \<and> set ds = set (split_comma s) - set sp \<and>
           parts_validator so rpm resource (VStr s)
             = Inl (PyYouTubeException \<lparr>status_code = INVALID_PARAMS, message =
                 ''Part '' @ join_comma ds @ '' for resource '' @ resource @
                 '' not support''\<rparr>)" by blast
  qed
  from a b c show ?thesis by blast
qed

theorem parts_validator_spec_witness:
  "set_order remdups
   \<and> map_of [(''video'', [''id'', ''snippet''])] ''video'' = Some [''id'', ''snippet'']
   \<and> parts_validator remdups (map_of [(''video'', [''id'', ''snippet''])]) ''video'' VNone
       = Inr ()
   \<and> parts_validator remdups (map_of [(''video'', [''id'', ''snippet''])]) ''video''
        (VStr ''id,snippet'') = Inr ()
   \<and> parts_validator remdups (map_of [(''video'', [''id'', ''snippet''])]) ''video''
        (VStr ''id,bogus'')
       = Inl (PyYouTubeException \<lparr>status_code = INVALID_PARAMS, message =
           ''Part bogus for resource video not support''\<rparr>)"
  using parts_validator_spec [of remdups "map_of [(''video'', [''id'', ''snippet''])]"
      "''video''" "[''id'', ''snippet'']" "''id,bogus''"]
  by (simp add: set_order_def parts_validator_def lookup_parts_def py_set_def
      issuperset_def difference_def py_join_def invalid_params_def)

text \<open>
  With two values that are not \<open>None\<close> and have no \<open>split\<close> attribute,
  \<open>x=1\<close> and \<open>q=2\<close>, the loop raises at \<open>x\<close>: the message of the exception does
  not contain the name \<open>q\<close> of the second.
\<close>

theorem comma_separated_validator_second_invalid_unnamed:
  "(''q'', VInt 2) \<in> set [(''x'', VInt 1), (''q'', VInt 2)]
   \<and> VInt 2 \<noteq> VNone \<and> py_split (VInt 2) = Inl AttributeError
   \<and> comma_separated_validator [(''x'', VInt 1), (''q'', VInt 2)]
       = Inl (PyYouTubeException \<lparr>status_code = INVALID_PARAMS, message =
           ''Parameter x must be str or comma-separated list str''\<rparr>)
   \<and> \<not> contains ''q'' ''Parameter x must be str or comma-separated list str''"
  by (simp add: invalid_params_def)

text \<open>
  C5. \<open>comma_separated_validator\<close> checks the values in the order of the arguments
  and raises at the first that fails. When a value is not \<open>None\<close> and has no
  \<open>split\<close> attribute, and every value before it is \<open>None\<close> or is split without an
  exception (a \<open>str\<close>), the call raises \<open>INVALID_PARAMS\<close> with the message
  \<open>Parameter <name> must be str or comma-separated list str\<close>, which contains the name
  of that parameter.
\<close>

theorem comma_separated_validator_first_invalid:
  "\<forall>p \<in> set pre. snd p = VNone \<or> (\<exists>ws. py_split (snd p) = Inr ws) \<Longrightarrow>
   param \<noteq> VNone \<Longrightarrow> py_split param = Inl AttributeError \<Longrightarrow>
   comma_separated_validator (pre @ (name, param) # post)
     = Inl (PyYouTubeException \<lparr>status_code = INVALID_PARAMS, message =
         ''Parameter '' @ name @ '' must be str or comma-separated list str''\<rparr>)
   \<and> contains name (''Parameter '' @ name @ '' must be str or comma-separated list str'')"
  using contains_append [of name "''Parameter ''" "'' must be str or comma-separated list str''"]
  by (simp add: comma_separated_validator_skip invalid_params_def)

theorem comma_separated_validator_first_invalid_witness:
  "py_split (snd (''x'', VStr ''a,b'')) = Inr [''a'', ''b'']
   \<and> VInt 2 \<noteq> VNone \<and> py_split (VInt 2) = Inl AttributeError
   \<and> comma_separated_validator [(''x'', VStr ''a,b''), (''q'', VInt 2), (''r'', VList [])]
     = Inl (PyYouTubeException \<lparr>status_code = INVALID_PARAMS, message =
         ''Parameter q must be str or comma-separated list str''\<rparr>)
   \<and> contains ''q'' ''Parameter q must be str or comma-separated list str''"
  using comma_separated_validator_first_invalid [of "[(''x'', VStr ''a,b'')]" "VInt 2"
      "''q''" "[(''r'', VList [])]"]
  by simp

text \<open>
  C6. When every value that is not \<open>None\<close> is a \<open>str\<close>,
  \<open>comma_separated_validator\<close> raises nothing and returns (\<open>None\<close>, the unit value
  here).
\<close>

theorem comma_separated_validator_strings:
  "\<forall>p \<in> set kwargs. snd p = VNone \<or> is_str (snd p) \<Longrightarrow>
   comma_separated_validator kwargs = Inr ()"
proof (induction kwargs)
  case Nil
  show ?case by simp
next
  case (Cons p kwargs)
  obtain name param where p: "p = (name, param)" by (cases p)
  from Cons.prems have "param = VNone \<or> is_str param" by (simp add: p)
  moreover have "comma_separated_validator kwargs = Inr ()"
    using Cons by simp
  ultimately show ?case by (cases param) (simp_all add: p)
qed

theorem comma_separated_validator_strings_witness:
  "(snd (''a'', VStr ''x,y'') = VNone \<or> is_str (snd (''a'', VStr ''x,y'')))
   \<and> (snd (''b'', VNone) = VNone \<or> is_str (snd (''b'', VNone)))
   \<and> comma_separated_validator [(''a'', VStr ''x,y''), (''b'', VNone)] = Inr ()"
  using comma_separated_validator_strings [of "[(''a'', VStr ''x,y''), (''b'', VNone)]"]
  by simp

text \<open>
  For an empty list \<open>enf_parts\<close> returns the empty string, and the empty string
  split on commas is the one empty token, which is no permitted part of the resource.
\<close>

theorem enf_parts_empty_output_not_subset:
  "enf_parts remdups (map_of [(''video'', [''id'', ''snippet''])]) ''video'' (VList []) = Inr ''''
   \<and> \<not> set (split_comma '''') \<subseteq> set [''id'', ''snippet'']"
  by (simp add: enf_parts_def lookup_parts_def py_set_def issuperset_def py_join_def)

text \<open>
  C7. For a resource that is a key of the mapping and whose permitted parts contain no
  comma: whenever \<open>enf_parts\<close> returns a string that is not empty, the pieces of that
  string between commas are all permitted parts of the resource.
\<close>

theorem enf_parts_output_subset:
  "rpm resource = Some sp \<Longrightarrow> \<forall>p \<in> set sp. CHR '','' \<notin> set p \<Longrightarrow>
   enf_parts so rpm resource v = Inr s \<Longrightarrow> s \<noteq> [] \<Longrightarrow>
   set (split_comma s) \<subseteq> set sp"
proof -
  assume rpm: "rpm resource = Some sp" and nc: "\<forall>p \<in> set sp. CHR '','' \<notin> set p"
    and r: "enf_parts so rpm resource v = Inr s" and ne: "s \<noteq> []"
  from r obtain parts where rq: "requested_parts so rpm resource v = Inr parts"
    by (auto simp: enf_parts_def split: sum.splits)
  note u = enf_parts_unfold [OF rpm rq]
  from r u have sup: "issuperset (map VStr sp) parts"
    by (auto split: if_splits sum.splits)
  with r u have j: "py_join parts = Inr s" by simp
  from sup have sub: "set parts \<subseteq> VStr ` set sp" by (simp add: issuperset_def)
  define ps where "ps = map the_str parts"
  from j have s: "s = join_comma ps"
    by (auto simp: py_join_def ps_def split: if_splits)
  have ps_sub: "set ps \<subseteq> set sp" using sub by (auto simp: ps_def)
  have "ps \<noteq> []" using s ne by auto
  moreover have "\<forall>w \<in> set ps. CHR '','' \<notin> set w" using ps_sub nc by blast
  ultimately have "split_comma (join_comma ps) = ps" by (rule split_join_comma)
  then show ?thesis using s ps_sub by simp
qed

theorem enf_parts_output_subset_witness:
  "map_of [(''video'', [''id'', ''snippet'', ''status''])] ''video''
     = Some [''id'', ''snippet'', ''status'']
   \<and> CHR '','' \<notin> set ''id'' \<and> CHR '','' \<notin> set ''snippet'' \<and> CHR '','' \<notin> set ''status''
   \<and> enf_parts remdups (map_of [(''video'', [''id'', ''snippet'', ''status''])]) ''video''
        (VList [VStr ''status'', VStr ''id'']) = Inr ''status,id''
   \<and> ''status,id'' \<noteq> []
   \<and> set (split_comma ''status,id'') \<subseteq> set [''id'', ''snippet'', ''status'']"
  using enf_parts_output_subset [of "map_of [(''video'', [''id'', ''snippet'', ''status''])]"
      "''video''" "[''id'', ''snippet'', ''status'']" remdups
      "VList [VStr ''status'', VStr ''id'']" "''status,id''"]
  by (simp add: enf_parts_def lookup_parts_def py_set_def issuperset_def py_join_def)

text \<open>
  C8. When \<open>enf_comma_separated\<close> returns a string, \<open>enf_comma_separated\<close> applied
  to that string returns the same string.
\<close>

theorem enf_comma_separated_idempotent:
  "fst (enf_comma_separated field v lg) = Inr (Some s) \<Longrightarrow>
   fst (enf_comma_separated field (VStr s) lg') = Inr (Some s)"
  by simp

theorem enf_comma_separated_idempotent_witness:
  "fst (enf_comma_separated ''ids'' (VList [VStr ''a'', VStr ''b'']) []) = Inr (Some ''a,b'')
   \<and> fst (enf_comma_separated ''ids'' (VStr ''a,b'') []) = Inr (Some ''a,b'')"
  using enf_comma_separated_idempotent [of "''ids''" "VList [VStr ''a'', VStr ''b'']" "[]"
      "''a,b''" "[]"]
  by (simp add: join_or_invalid_def py_join_def)

text \<open>
  C9. For a \<open>set\<close> of strings, whatever the order \<open>xs\<close> in which it is iterated,
  \<open>enf_comma_separated\<close> returns the join by commas of a list that holds each element
  of the set once (and, when the set is not empty and no element contains a comma, the
  pieces of the result are exactly the elements), raises nothing, and appends one line of
  level \<open>WARNING\<close> to the log.
\<close>

theorem enf_comma_separated_set:
  "distinct xs \<Longrightarrow> set xs = VStr ` S \<Longrightarrow>
   (\<exists>ss. distinct ss \<and> set ss = S \<and>
      enf_comma_separated field (VSet xs) lg
        = (Inr (Some (join_comma ss)),
           lg @ [(WARNING, ''Note: The order of the set is unreliable.'')]) \<and>
      (S \<noteq> {} \<and> (\<forall>w \<in> S. CHR '','' \<notin> set w) \<longrightarrow> set (split_comma (join_comma ss)) = S))"
proof -
  assume d: "distinct xs" and s: "set xs = VStr ` S"
  have "set_order (\<lambda>ys. remdups ys)" by (simp add: set_order_def)
  from set_order_image [OF this s]
  obtain ss where ss: "xs = map VStr ss" "distinct ss" "set ss = S"
    using d by (auto simp: distinct_remdups_id)
  have e: "enf_comma_separated field (VSet xs) lg
        = (Inr (Some (join_comma ss)),
           lg @ [(WARNING, ''Note: The order of the set is unreliable.'')])"
    by (simp add: ss(1) join_or_invalid_def py_join_strs)
  have "S \<noteq> {} \<and> (\<forall>w \<in> S. CHR '','' \<notin> set w) \<longrightarrow> set (split_comma (join_comma ss)) = S"
  proof
    assume a: "S \<noteq> {} \<and> (\<forall>w \<in> S. CHR '','' \<notin> set w)"
    then have "ss \<noteq> []" using ss(3) by auto
    moreover have "\<forall>w \<in> set ss. CHR '','' \<notin> set w" using a ss(3) by simp
    ultimately have "split_comma (join_comma ss) = ss" by (rule split_join_comma)
    then show "set (split_comma (join_comma ss)) = S" using ss(3) by simp
  qed
  with e ss(2,3) show ?thesis by blast
qed

theorem enf_comma_separated_set_witness:
  "distinct [VStr ''b'', VStr ''a''] \<and> set [VStr ''b'', VStr ''a''] = VStr ` {''a'', ''b''}
   \<and> enf_comma_separated ''ids'' (VSet [VStr ''b'', VStr ''a'']) []
       = (Inr (Some ''b,a''), [(WARNING, ''Note: The order of the set is unreliable.'')])
   \<and> set (split_comma ''b,a'') = {''a'', ''b''}"
  using enf_comma_separated_set [of "[VStr ''b'', VStr ''a'']" "{''a'', ''b''}" "''ids''" "[]"]
  by (auto simp: join_or_invalid_def py_join_def)

text \<open>
  C10. For a resource that is a key of the mapping, \<open>enf_parts\<close> returns the empty
  string for an empty \<open>list\<close>, \<open>tuple\<close> or \<open>set\<close>; only \<open>None\<close> gives the
  permitted parts of the resource joined by commas.
\<close>

theorem enf_parts_empty_collection:
  "set_order so \<Longrightarrow> rpm resource = Some sp \<Longrightarrow>
   enf_parts so rpm resource (VList []) = Inr []
   \<and> enf_parts so rpm resource (VTuple []) = Inr []
   \<and> enf_parts so rpm resource (VSet []) = Inr []
   \<and> enf_parts so rpm resource VNone = Inr (join_comma sp)"
  by (simp add: enf_parts_None)
     (simp add: enf_parts_def lookup_parts_def py_set_def set_order_Nil issuperset_def
       py_join_def)

theorem enf_parts_empty_collection_witness:
  "set_order remdups
   \<and> map_of [(''video'', [''id'', ''snippet''])] ''video'' = Some [''id'', ''snippet'']
   \<and> enf_parts remdups (map_of [(''video'', [''id'', ''snippet''])]) ''video'' (VList []) = Inr ''''
   \<and> enf_parts remdups (map_of [(''video'', [''id'', ''snippet''])]) ''video'' (VTuple []) = Inr ''''
   \<and> enf_parts remdups (map_of [(''video'', [''id'', ''snippet''])]) ''video'' (VSet []) = Inr ''''
   \<and> enf_parts remdups (map_of [(''video'', [''id'', ''snippet''])]) ''video'' VNone
       = Inr ''id,snippet''"
  using enf_parts_empty_collection [of remdups "map_of [(''video'', [''id'', ''snippet''])]"
      "''video''" "[''id'', ''snippet'']"]
  by (simp add: set_order_def)

end
